theory Spec2Isabelle
  imports Main "HOL-Library.Multiset"
begin

section \<open>Cards, hand evaluation and the deck\<close>

text \<open>
  A card token of the program is a rank (\<open>2\<close> .. \<open>10\<close>, \<open>J\<close>, \<open>Q\<close>, \<open>K\<close>, \<open>A\<close>)
  followed by one suit glyph. The glyph is a single character of the Python string, so
  \<^verbatim>\<open>card[:-1]\<close> is the rank. The model keeps the two parts apart: a card is the
  pair of its rank string and its suit. Hands and decks are stored by the program as
  comma-joined text and split again when read; the model keeps them as lists.
\<close>

datatype suit = Spades | Hearts | Diamonds | Clubs

type_synonym card = "string \<times> suit"

datatype py_error = ValueError | IndexError

subsection \<open>\<^verbatim>\<open>int(rank)\<close> on a rank string\<close>

text \<open>
  Python's \<^verbatim>\<open>int\<close> of a string: an optional sign and a non-empty run of decimal
  digits give the number, anything else raises \<^verbatim>\<open>ValueError\<close> (surrounding blanks and
  underscores between digits, which Python also accepts, do not occur in a rank).
\<close>

definition is_digit :: "char \<Rightarrow> bool" where
  "is_digit c = (48 \<le> (of_char c :: nat) \<and> (of_char c :: nat) \<le> 57)"

fun digits_value :: "string \<Rightarrow> int \<Rightarrow> int option" where
  "digits_value [] acc = Some acc"
| "digits_value (c # cs) acc =
     (if is_digit c then digits_value cs (10 * acc + (int (of_char c) - 48)) else None)"

fun py_int :: "string \<Rightarrow> int option" where
  "py_int [] = None"
| "py_int (c # cs) =
     (if c = CHR ''-'' then (if cs = [] then None else map_option uminus (digits_value cs 0))
      else if c = CHR ''+'' then (if cs = [] then None else digits_value cs 0)
      else digits_value (c # cs) 0)"

subsection \<open>\<^verbatim>\<open>calculate_hand_value\<close>\<close>

text \<open>The \<^verbatim>\<open>for card in cards\<close> loop, with its two accumulators \<open>value\<close> and \<open>aces\<close>.\<close>

fun hand_loop :: "card list \<Rightarrow> int \<Rightarrow> nat \<Rightarrow> (int \<times> nat) option" where
  "hand_loop [] v a = Some (v, a)"
| "hand_loop (c # cs) v a =
     (let rank = fst c in
      if rank \<in> set [''J'', ''Q'', ''K''] then hand_loop cs (v + 10) a
      else if rank = ''A'' then hand_loop cs (v + 11) (a + 1)
      else (case py_int rank of
              None \<Rightarrow> None
            | Some n \<Rightarrow> hand_loop cs (v + n) a))"

text \<open>The \<^verbatim>\<open>while value > 21 and aces\<close> loop.\<close>

fun soften :: "int \<Rightarrow> nat \<Rightarrow> int" where
  "soften v 0 = v"
| "soften v (Suc a) = (if v > 21 then soften (v - 10) a else v)"

definition calculate_hand_value :: "card list \<Rightarrow> py_error + int" where
  "calculate_hand_value cards =
     (case hand_loop cards 0 0 of
        None \<Rightarrow> Inl ValueError
      | Some (v, a) \<Rightarrow> Inr (soften v a))"

subsection \<open>\<^verbatim>\<open>create_deck\<close>\<close>

definition suits :: "suit list" where
  "suits = [Spades, Hearts, Diamonds, Clubs]"

definition ranks :: "string list" where
  "ranks = [''2'', ''3'', ''4'', ''5'', ''6''] @ [''7'', ''8'', ''9'', ''10'']
             @ [''J'', ''Q'', ''K'', ''A'']"

text \<open>The comprehension \<^verbatim>\<open>[f"{rank}{suit}" for suit in suits for rank in ranks]\<close>.\<close>

definition ordered_deck :: "card list" where
  "ordered_deck = concat (map (\<lambda>s. map (\<lambda>r. (r, s)) ranks) suits)"

text \<open>
  \<^verbatim>\<open>random.shuffle\<close> is the library's in-place Fisher-Yates loop
  \<^verbatim>\<open>for i in reversed(range(1, len(x))): j = randbelow(i + 1); x[i], x[j] = x[j], x[i]\<close>.
  The random source is a parameter: \<open>rnd i\<close> is the number drawn at position \<open>i\<close>, brought
  into the range \<open>0 .. i\<close> of \<^verbatim>\<open>randbelow(i + 1)\<close>.
\<close>

fun shuffle_from :: "(nat \<Rightarrow> nat) \<Rightarrow> nat \<Rightarrow> 'a list \<Rightarrow> 'a list" where
  "shuffle_from rnd 0 xs = xs"
| "shuffle_from rnd (Suc i) xs =
     (let j = rnd (Suc i) mod (Suc i + 1)
      in shuffle_from rnd i (xs[Suc i := xs ! j, j := xs ! Suc i]))"

definition shuffle :: "(nat \<Rightarrow> nat) \<Rightarrow> 'a list \<Rightarrow> 'a list" where
  "shuffle rnd xs = shuffle_from rnd (length xs - 1) xs"

definition create_deck :: "(nat \<Rightarrow> nat) \<Rightarrow> card list" where
  "create_deck rnd = shuffle rnd ordered_deck"

text \<open>\<^verbatim>\<open>deck.pop()\<close> takes the last card; on an empty list it raises \<^verbatim>\<open>IndexError\<close>.\<close>

definition pop :: "'a list \<Rightarrow> ('a \<times> 'a list) option" where
  "pop xs = (if xs = [] then None else Some (last xs, butlast xs))"

subsection \<open>The hand value as the specification words it\<close>

text \<open>
  Face cards count 10, numeric ranks their face value, an ace 11; then 10 is taken off
  once per softened ace, for as many aces as are needed to come down to 21 or as there
  are. \<open>card_points\<close> is the table of the thirteen ranks, \<open>softenings_needed\<close> the number
  of steps of 10 that bring a total to 21 or below.
\<close>

definition card_points :: "string \<Rightarrow> int" where
  "card_points r =
     (case map_of [(''2'', 2), (''3'', 3), (''4'', 4), (''5'', 5), (''6'', 6), (''7'', 7),
                   (''8'', 8), (''9'', 9), (''10'', 10), (''J'', 10), (''Q'', 10),
                   (''K'', 10), (''A'', 11)] r of
        Some n \<Rightarrow> n
      | None \<Rightarrow> 0)"

definition softenings_needed :: "int \<Rightarrow> nat" where
  "softenings_needed t = (if t \<le> 21 then 0 else nat ((t - 21 + 9) div 10))"

definition handValue_spec :: "card list \<Rightarrow> int" where
  "handValue_spec cards =
     (let t = sum_list (map (\<lambda>c. card_points (fst c)) cards);
          aces = length (filter (\<lambda>c. fst c = ''A'') cards)
      in t - 10 * int (min aces (softenings_needed t)))"

section \<open>The ledger\<close>

text \<open>
  The \<^verbatim>\<open>users\<close> table, keyed by \<^verbatim>\<open>user_id\<close>, with the three columns the game
  touches. Python's integers are unbounded, so the columns are \<open>int\<close>.
\<close>

type_synonym user_id = int

record user_row =
  balance :: int
  negative_balance :: int
  game_wins :: int

type_synonym users_table = "user_id \<rightharpoonup> user_row"

definition get_user_balance :: "users_table \<Rightarrow> user_id \<Rightarrow> int" where
  "get_user_balance us uid = (case us uid of None \<Rightarrow> 0 | Some row \<Rightarrow> balance row)"

definition update_user_balance :: "users_table \<Rightarrow> user_id \<Rightarrow> int \<Rightarrow> users_table" where
  "update_user_balance us uid delta =
     (case us uid of
        None \<Rightarrow> us
      | Some row \<Rightarrow>
          (let new_balance = balance row + delta in
           if new_balance < 0
           then us(uid \<mapsto> row\<lparr>balance := 0,
                                negative_balance := negative_balance row + \<bar>new_balance\<bar>\<rparr>)
           else us(uid \<mapsto> row\<lparr>balance := new_balance,
                                negative_balance := negative_balance row\<rparr>)))"

text \<open>\<^verbatim>\<open>UPDATE users SET game_wins = game_wins + 1 WHERE user_id=$1\<close>\<close>

definition add_game_win :: "users_table \<Rightarrow> user_id \<Rightarrow> users_table" where
  "add_game_win us uid =
     (case us uid of
        None \<Rightarrow> us
      | Some row \<Rightarrow> us(uid \<mapsto> row\<lparr>game_wins := game_wins row + 1\<rparr>))"

section \<open>Rooms and seats\<close>

definition MAX_ROOMS :: int where "MAX_ROOMS = 20"
definition MIN_PLAYERS :: int where "MIN_PLAYERS = 2"
definition MAX_PLAYERS :: int where "MAX_PLAYERS = 5"
definition MIN_BET :: int where "MIN_BET = 3"
definition DEALER_WIN_RATE :: int where "DEALER_WIN_RATE = 3"

type_synonym game_id = string

text \<open>The \<^verbatim>\<open>status\<close> column; the program writes \<^verbatim>\<open>'waiting'\<close> and \<^verbatim>\<open>'playing'\<close> only.\<close>

datatype status = Waiting | Playing

text \<open>
  A row of \<^verbatim>\<open>multiplayer_games\<close> and a row of \<^verbatim>\<open>game_players\<close>. The dealer's seat
  is the row with \<^verbatim>\<open>user_id = 0\<close>. \<^verbatim>\<open>joined_at\<close> is a timestamp text whose order is
  the order of time; the model keeps it as a number. The \<^verbatim>\<open>username\<close> and
  \<^verbatim>\<open>created_at\<close> columns only appear in message texts and are left out.
\<close>

record game_row =
  game_id :: game_id
  host_id :: user_id
  max_players :: int
  bet_amount :: int
  status :: status
  deck :: "card list"

record player_row =
  pl_game_id :: game_id
  pl_user_id :: user_id
  pl_cards :: "card list"
  pl_value :: int
  pl_stopped :: bool
  pl_joined_at :: nat

text \<open>
  The store: the three tables and the per-user conversation data in which
  \<^verbatim>\<open>process_next_turn\<close> saves \<^verbatim>\<open>game_id\<close> and \<^verbatim>\<open>player_index\<close>. A table is the
  list of its rows in insertion order. Every handler runs from its first statement to its
  last without another handler in between.
\<close>

record db =
  users :: users_table
  multiplayer_games :: "game_row list"
  game_players :: "player_row list"
  fsm_data :: "user_id \<rightharpoonup> game_id \<times> nat"

datatype alert =
    RoomNotFoundOrStarted | RoomFull | AlreadyInRoom | NotEnoughCoins | RoomNotFound
  | RoomLimitReached | OnlyHostMayStart | NotEnoughPlayers | GameNotFound | GameFinished
  | NotYourTurn

text \<open>
  What a handler answers: an alert shown to the caller, normal completion, or an
  exception that leaves the handler.
\<close>

datatype reply = Alert alert | Done | Raised py_error

subsection \<open>Queries and row updates\<close>

definition find_game :: "db \<Rightarrow> game_id \<Rightarrow> game_row option" where
  "find_game d gid = find (\<lambda>g. game_id g = gid) (multiplayer_games d)"

definition update_game :: "game_id \<Rightarrow> (game_row \<Rightarrow> game_row) \<Rightarrow> db \<Rightarrow> db" where
  "update_game gid f d =
     d\<lparr>multiplayer_games := map (\<lambda>g. if game_id g = gid then f g else g) (multiplayer_games d)\<rparr>"

definition delete_game :: "game_id \<Rightarrow> db \<Rightarrow> db" where
  "delete_game gid d =
     d\<lparr>multiplayer_games := filter (\<lambda>g. game_id g \<noteq> gid) (multiplayer_games d)\<rparr>"

text \<open>\<^verbatim>\<open>SELECT ... FROM game_players WHERE game_id=$1\<close>\<close>

definition players_of :: "db \<Rightarrow> game_id \<Rightarrow> player_row list" where
  "players_of d gid = filter (\<lambda>p. pl_game_id p = gid) (game_players d)"

text \<open>
  \<^verbatim>\<open>SELECT * FROM game_players WHERE game_id=$1 AND user_id != 0 ORDER BY joined_at\<close>;
  rows with the same timestamp stay in insertion order.
\<close>

definition seats_in_order :: "db \<Rightarrow> game_id \<Rightarrow> player_row list" where
  "seats_in_order d gid =
     sort_key pl_joined_at (filter (\<lambda>p. pl_game_id p = gid \<and> pl_user_id p \<noteq> 0) (game_players d))"

definition update_player :: "game_id \<Rightarrow> user_id \<Rightarrow> (player_row \<Rightarrow> player_row) \<Rightarrow> db \<Rightarrow> db" where
  "update_player gid uid f d =
     d\<lparr>game_players :=
         map (\<lambda>p. if pl_game_id p = gid \<and> pl_user_id p = uid then f p else p) (game_players d)\<rparr>"

definition delete_player :: "game_id \<Rightarrow> user_id \<Rightarrow> db \<Rightarrow> db" where
  "delete_player gid uid d =
     d\<lparr>game_players :=
         filter (\<lambda>p. \<not> (pl_game_id p = gid \<and> pl_user_id p = uid)) (game_players d)\<rparr>"

definition delete_players :: "game_id \<Rightarrow> db \<Rightarrow> db" where
  "delete_players gid d =
     d\<lparr>game_players := filter (\<lambda>p. pl_game_id p \<noteq> gid) (game_players d)\<rparr>"

definition insert_player :: "player_row \<Rightarrow> db \<Rightarrow> db" where
  "insert_player p d = d\<lparr>game_players := game_players d @ [p]\<rparr>"

definition new_seat :: "game_id \<Rightarrow> user_id \<Rightarrow> nat \<Rightarrow> player_row" where
  "new_seat gid uid now =
     \<lparr>pl_game_id = gid, pl_user_id = uid, pl_cards = [], pl_value = 0,
      pl_stopped = False, pl_joined_at = now\<rparr>"

definition change_balance :: "user_id \<Rightarrow> int \<Rightarrow> db \<Rightarrow> db" where
  "change_balance uid delta d = d\<lparr>users := update_user_balance (users d) uid delta\<rparr>"

subsection \<open>\<^verbatim>\<open>create_room_start\<close>\<close>

definition create_room_start :: "db \<Rightarrow> reply" where
  "create_room_start d =
     (let count = int (length (filter (\<lambda>g. status g = Waiting) (multiplayer_games d)))
      in if count \<ge> MAX_ROOMS then Alert RoomLimitReached else Done)"

subsection \<open>\<^verbatim>\<open>join_room_callback\<close>\<close>

definition join_room_callback :: "db \<Rightarrow> game_id \<Rightarrow> user_id \<Rightarrow> nat \<Rightarrow> reply \<times> db" where
  "join_room_callback d gid uid now =
     (case find_game d gid of
        None \<Rightarrow> (Alert RoomNotFoundOrStarted, d)
      | Some game \<Rightarrow>
          if status game \<noteq> Waiting then (Alert RoomNotFoundOrStarted, d)
          else
            let players = players_of d gid in
            if int (length players) \<ge> max_players game then (Alert RoomFull, d)
            else if uid \<in> set (map pl_user_id players) then (Alert AlreadyInRoom, d)
            else
              let bal = get_user_balance (users d) uid;
                  bet = bet_amount game
              in if bal < bet then (Alert NotEnoughCoins, d)
                 else (Done, insert_player (new_seat gid uid now) d))"

subsection \<open>\<^verbatim>\<open>leave_room_callback\<close>\<close>

definition leave_room_callback :: "db \<Rightarrow> game_id \<Rightarrow> user_id \<Rightarrow> reply \<times> db" where
  "leave_room_callback d gid uid =
     (case find_game d gid of
        None \<Rightarrow> (Alert RoomNotFound, d)
      | Some game \<Rightarrow>
          let bet = bet_amount game in
          if status game = Waiting then
            let d1 = change_balance uid bet d;
                d2 = delete_player gid uid d1
            in if host_id game = uid then
                 (case map pl_user_id (sort_key pl_joined_at (players_of d2 gid)) of
                    [] \<Rightarrow> (Done, delete_game gid d2)
                  | next_host # _ \<Rightarrow>
                      if next_host \<noteq> 0
                      then (Done, update_game gid (\<lambda>g. g\<lparr>host_id := next_host\<rparr>) d2)
                      else (Done, delete_game gid d2))
               else (Done, d2)
          else
            let d1 = change_balance uid (- bet) d;
                d2 = update_player gid uid (\<lambda>p. p\<lparr>pl_stopped := True\<rparr>) d1;
                players_left =
                  length (filter (\<lambda>p. pl_game_id p = gid \<and> pl_user_id p \<noteq> 0 \<and> \<not> pl_stopped p)
                            (game_players d2))
            in if players_left = 0
               then (Done, delete_game gid (delete_players gid d2))
               else (Done, d2))"

subsection \<open>\<^verbatim>\<open>dealer_turn\<close>\<close>

text \<open>
  The dealer's \<^verbatim>\<open>while dealer_value < 17 and deck\<close> loop; each round writes the dealer's
  row and the room's deck.
\<close>

function dealer_draw ::
  "db \<Rightarrow> game_id \<Rightarrow> card list \<Rightarrow> card list \<Rightarrow> int
     \<Rightarrow> py_error \<times> db + db \<times> card list \<times> int"
where
  "dealer_draw d gid dk dealer_cards dealer_value =
     (if dealer_value < 17 \<and> dk \<noteq> [] then
        let new_card = last dk;
            dk' = butlast dk;
            dealer_cards' = dealer_cards @ [new_card]
        in (case calculate_hand_value dealer_cards' of
              Inl e \<Rightarrow> Inl (e, d)
            | Inr v \<Rightarrow>
                dealer_draw
                  (update_game gid (\<lambda>g. g\<lparr>deck := dk'\<rparr>)
                     (update_player gid 0 (\<lambda>p. p\<lparr>pl_cards := dealer_cards', pl_value := v\<rparr>) d))
                  gid dk' dealer_cards' v)
      else Inr (d, dealer_cards, dealer_value))"
  by pat_completeness auto
termination
  by (relation "measure (\<lambda>(d, gid, dk, cs, v). length dk)") auto

declare dealer_draw.simps [simp del]

text \<open>
  The message a seat receives at settlement: lost by going over 21, lost to the forced
  dealer win, won (with the amount paid), lost on points, or a draw.
\<close>

datatype result = LossBust int | LossDealerStrong int | Win int | Loss int | Push

text \<open>The body of the settlement loop for one seat.\<close>

definition settle_player ::
  "bool \<Rightarrow> int \<Rightarrow> int \<Rightarrow> users_table \<Rightarrow> player_row \<Rightarrow> (user_id \<times> result) \<times> users_table"
where
  "settle_player dealer_forced_win dealer_value bet us player =
     (let player_value = pl_value player; uid = pl_user_id player in
      if player_value > 21 then ((uid, LossBust bet), update_user_balance us uid (- bet))
      else if dealer_forced_win then
        ((uid, LossDealerStrong bet), update_user_balance us uid (- bet))
      else if dealer_value > 21 then
        (let win = bet - 1 in ((uid, Win win), add_game_win (update_user_balance us uid win) uid))
      else if player_value > dealer_value then
        (let win = bet - 1 in ((uid, Win win), add_game_win (update_user_balance us uid win) uid))
      else if player_value < dealer_value then
        ((uid, Loss bet), update_user_balance us uid (- bet))
      else ((uid, Push), us))"

fun settle_all ::
  "bool \<Rightarrow> int \<Rightarrow> int \<Rightarrow> users_table \<Rightarrow> player_row list
     \<Rightarrow> (user_id \<times> result) list \<times> users_table"
where
  "settle_all f dv bet us [] = ([], us)"
| "settle_all f dv bet us (p # ps) =
     (case settle_player f dv bet us p of
        (res, us') \<Rightarrow> (case settle_all f dv bet us' ps of (rs, us'') \<Rightarrow> (res # rs, us'')))"

text \<open>
  \<open>r\<close> is the number that \<^verbatim>\<open>random.randint(1, DEALER_WIN_RATE)\<close> returns. The second
  component is the list of results sent to the seats.
\<close>

definition dealer_turn :: "db \<Rightarrow> game_id \<Rightarrow> int \<Rightarrow> reply \<times> (user_id \<times> result) list \<times> db" where
  "dealer_turn d gid r =
     (case find_game d gid of
        None \<Rightarrow> (Done, [], d)
      | Some game \<Rightarrow>
          if status game \<noteq> Playing then (Done, [], d)
          else
            let dk = deck game;
                (dealer_cards, dealer_value) =
                  (case find (\<lambda>p. pl_game_id p = gid \<and> pl_user_id p = 0) (game_players d) of
                     Some dealer \<Rightarrow> (pl_cards dealer, pl_value dealer)
                   | None \<Rightarrow> ([], 0))
            in (case dealer_draw d gid dk dealer_cards dealer_value of
                  Inl (e, d') \<Rightarrow> (Raised e, [], d')
                | Inr (d1, dealer_cards', dealer_value') \<Rightarrow>
                    let dealer_forced_win = (r = 1);
                        players = filter (\<lambda>p. pl_game_id p = gid \<and> pl_user_id p \<noteq> 0)
                                    (game_players d1);
                        bet = bet_amount game;
                        (results, us) =
                          settle_all dealer_forced_win dealer_value' bet (users d1) players
                    in (Done, results, delete_game gid (delete_players gid (d1\<lparr>users := us\<rparr>)))))"

subsection \<open>\<^verbatim>\<open>process_next_turn\<close>\<close>

definition process_next_turn :: "db \<Rightarrow> game_id \<Rightarrow> nat \<Rightarrow> int \<Rightarrow> reply \<times> db" where
  "process_next_turn d gid player_index r =
     (case find_game d gid of
        None \<Rightarrow> (Done, d)
      | Some game \<Rightarrow>
          if status game \<noteq> Playing then (Done, d)
          else
            let players = seats_in_order d gid in
            if player_index \<ge> length players then
              (case dealer_turn d gid r of (rep, results, d') \<Rightarrow> (rep, d'))
            else
              let current_player = players ! player_index in
              (case calculate_hand_value (pl_cards current_player) of
                 Inl e \<Rightarrow> (Raised e, d)
               | Inr v \<Rightarrow>
                   (Done, d\<lparr>fsm_data :=
                              (fsm_data d)(pl_user_id current_player \<mapsto> (gid, player_index))\<rparr>)))"

subsection \<open>\<^verbatim>\<open>start_game_callback\<close>\<close>

text \<open>
  The loop \<^verbatim>\<open>for player in players: cards = [deck.pop(), deck.pop()]; ...\<close> over the
  user ids of the seats, threading the deck.
\<close>

fun deal_initial ::
  "db \<Rightarrow> game_id \<Rightarrow> user_id list \<Rightarrow> card list \<Rightarrow> py_error \<times> db + db \<times> card list"
where
  "deal_initial d gid [] dk = Inr (d, dk)"
| "deal_initial d gid (u # us) dk =
     (case pop dk of
        None \<Rightarrow> Inl (IndexError, d)
      | Some (c1, dk1) \<Rightarrow>
          (case pop dk1 of
             None \<Rightarrow> Inl (IndexError, d)
           | Some (c2, dk2) \<Rightarrow>
               let cards = [c1, c2] in
               (case calculate_hand_value cards of
                  Inl e \<Rightarrow> Inl (e, d)
                | Inr v \<Rightarrow>
                    deal_initial
                      (update_player gid u (\<lambda>p. p\<lparr>pl_cards := cards, pl_value := v\<rparr>) d)
                      gid us dk2)))"

text \<open>
  \<open>rnd\<close> feeds the shuffle of \<^verbatim>\<open>create_deck\<close>, \<open>now\<close> is the clock, and \<open>r\<close> the
  dealer's draw, should \<^verbatim>\<open>process_next_turn\<close> reach the dealer.
\<close>

definition start_game_callback ::
  "db \<Rightarrow> game_id \<Rightarrow> user_id \<Rightarrow> (nat \<Rightarrow> nat) \<Rightarrow> nat \<Rightarrow> int \<Rightarrow> reply \<times> db"
where
  "start_game_callback d gid uid rnd now r =
     (case find_game d gid of
        None \<Rightarrow> (Alert RoomNotFoundOrStarted, d)
      | Some game \<Rightarrow>
          if status game \<noteq> Waiting then (Alert RoomNotFoundOrStarted, d)
          else if host_id game \<noteq> uid then (Alert OnlyHostMayStart, d)
          else
            let players = players_of d gid in
            if int (length players) < MIN_PLAYERS then (Alert NotEnoughPlayers, d)
            else
              let d1 = update_game gid (\<lambda>g. g\<lparr>status := Playing\<rparr>) d;
                  dk = create_deck rnd
              in (case deal_initial d1 gid (map pl_user_id players) dk of
                    Inl (e, d') \<Rightarrow> (Raised e, d')
                  | Inr (d2, dk') \<Rightarrow>
                      let d3 = insert_player (new_seat gid 0 now) d2;
                          d4 = update_game gid (\<lambda>g. g\<lparr>deck := dk'\<rparr>) d3
                      in process_next_turn d4 gid 0 r))"

subsection \<open>\<^verbatim>\<open>room_action_callback\<close>\<close>

datatype action = Hit | Stand | Surrender

definition room_action_callback :: "db \<Rightarrow> user_id \<Rightarrow> action \<Rightarrow> int \<Rightarrow> reply \<times> db" where
  "room_action_callback d uid act r =
     (case fsm_data d uid of
        None \<Rightarrow> (Alert GameNotFound, d)
      | Some (gid, player_index) \<Rightarrow>
          if gid = [] then (Alert GameNotFound, d)
          else
            (case find_game d gid of
               None \<Rightarrow> (Alert GameFinished, d)
             | Some game \<Rightarrow>
                 if status game \<noteq> Playing then (Alert GameFinished, d)
                 else
                   let players = seats_in_order d gid in
                   if player_index \<ge> length players
                      \<or> pl_user_id (players ! player_index) \<noteq> uid
                   then (Alert NotYourTurn, d)
                   else
                     let dk = deck game;
                         current_player = players ! player_index;
                         cards = pl_cards current_player
                     in (case calculate_hand_value cards of
                           Inl e \<Rightarrow> (Raised e, d)
                         | Inr v \<Rightarrow>
                             (case act of
                                Hit \<Rightarrow>
                                  if dk = [] then
                                    process_next_turn
                                      (update_player gid uid (\<lambda>p. p\<lparr>pl_stopped := True\<rparr>) d)
                                      gid (player_index + 1) r
                                  else
                                    let new_card = last dk;
                                        dk' = butlast dk;
                                        cards' = cards @ [new_card]
                                    in (case calculate_hand_value cards' of
                                          Inl e \<Rightarrow> (Raised e, d)
                                        | Inr v' \<Rightarrow>
                                            let d1 = update_player gid uid
                                                       (\<lambda>p. p\<lparr>pl_cards := cards', pl_value := v'\<rparr>) d;
                                                d2 = update_game gid (\<lambda>g. g\<lparr>deck := dk'\<rparr>) d1
                                            in if v' > 21 then
                                                 process_next_turn
                                                   (update_player gid uid
                                                      (\<lambda>p. p\<lparr>pl_stopped := True\<rparr>) d2)
                                                   gid (player_index + 1) r
                                               else (Done, d2))
                              | Stand \<Rightarrow>
                                  process_next_turn
                                    (update_player gid uid (\<lambda>p. p\<lparr>pl_stopped := True\<rparr>) d)
                                    gid (player_index + 1) r
                              | Surrender \<Rightarrow>
                                  let bet = bet_amount game;
                                      d1 = change_balance uid (- bet) d;
                                      d2 = update_player gid uid (\<lambda>p. p\<lparr>pl_stopped := True\<rparr>) d1
                                  in process_next_turn d2 gid (player_index + 1) r))))"

section \<open>Settlement as the specification words it\<close>



section \<open>A room of two players, step by step\<close>

text \<open>
  User 1 (balance 100) has opened room \<open>AB12CD\<close> with stake 10 and sits in it; user 2
  (balance 50) is not seated yet.
\<close>

definition lobby_db :: db where
  "lobby_db =
     \<lparr>users = [1 \<mapsto> \<lparr>balance = 100, negative_balance = 0, game_wins = 0\<rparr>,
               2 \<mapsto> \<lparr>balance = 50, negative_balance = 0, game_wins = 0\<rparr>],
      multiplayer_games =
        [\<lparr>game_id = ''AB12CD'', host_id = 1, max_players = 2, bet_amount = 10,
          status = Waiting, deck = []\<rparr>],
      game_players = [new_seat ''AB12CD'' 1 100],
      fsm_data = Map.empty\<rparr>"

text \<open>User 2 joins; the host starts the game (the shuffle draws 0 at every step).\<close>

definition joined_db :: db where
  "joined_db = snd (join_room_callback lobby_db ''AB12CD'' 2 105)"

definition started_db :: db where
  "started_db = snd (start_game_callback joined_db ''AB12CD'' 1 (\<lambda>i. 0) 110 1)"

text \<open>User 1, whose turn it is, stands.\<close>

definition after_stand_db :: db where
  "after_stand_db = snd (room_action_callback started_db 1 Stand 1)"

section \<open>A room of three players\<close>

text \<open>
  User 1 (balance 100) has opened room \<open>XY34ZW\<close> with stake 10; users 2 (balance 50)
  and 3 (balance 70) join and the host starts the game. Users 1 and 2 stand in turn, so
  that the turn is user 3's; then user 2 presses the leave button.
\<close>

definition trio_lobby_db :: db where
  "trio_lobby_db =
     \<lparr>users = [1 \<mapsto> \<lparr>balance = 100, negative_balance = 0, game_wins = 0\<rparr>,
               2 \<mapsto> \<lparr>balance = 50, negative_balance = 0, game_wins = 0\<rparr>,
               3 \<mapsto> \<lparr>balance = 70, negative_balance = 0, game_wins = 0\<rparr>],
      multiplayer_games =
        [\<lparr>game_id = ''XY34ZW'', host_id = 1, max_players = 3, bet_amount = 10,
          status = Waiting, deck = []\<rparr>],
      game_players = [new_seat ''XY34ZW'' 1 100],
      fsm_data = Map.empty\<rparr>"

definition trio_started_db :: db where
  "trio_started_db =
     snd (start_game_callback
            (snd (join_room_callback (snd (join_room_callback trio_lobby_db ''XY34ZW'' 2 105))
                    ''XY34ZW'' 3 107))
            ''XY34ZW'' 1 (\<lambda>i. 0) 110 1)"

definition trio_stood_db :: db where
  "trio_stood_db =
     snd (room_action_callback (snd (room_action_callback trio_started_db 1 Stand 1)) 2 Stand 1)"

definition trio_left_db :: db where
  "trio_left_db = snd (leave_room_callback trio_stood_db ''XY34ZW'' 2)"

text \<open>Twenty rooms, all of them in play, none waiting.\<close>

definition busy_db :: db where
  "busy_db =
     \<lparr>users = Map.empty,
      multiplayer_games =
        map (\<lambda>c. \<lparr>game_id = ''ROOM0'' @ [c], host_id = 1, max_players = 2, bet_amount = 10,
                  status = Playing, deck = []\<rparr>) ''ABCDEFGHIJKLMNOPQRST'',
      game_players = [],
      fsm_data = Map.empty\<rparr>"

section \<open>What the deal preserves\<close>



section \<open>Hand evaluation\<close>

lemma needed_step: "v > 21 \<Longrightarrow> softenings_needed v = Suc (softenings_needed (v - 10))"
proof -
  assume v: "v > 21"
  have "(v - 21 + 9) div 10 = (v - 10 - 21 + 9) div 10 + 1" by presburger
  moreover have "v - 10 \<le> 21 \<Longrightarrow> (v - 21 + 9) div 10 = 1" using v by presburger
  moreover have "\<not> v - 10 \<le> 21 \<Longrightarrow> 0 \<le> (v - 10 - 21 + 9) div 10" by presburger
  ultimately show ?thesis using v by (auto simp: softenings_needed_def nat_add_distrib)
qed

lemma soften_closed: "soften v a = v - 10 * int (min a (softenings_needed v))"
proof (induction a arbitrary: v)
  case 0 show ?case by simp
next
  case (Suc a)
  show ?case
  proof (cases "v > 21")
    case True
    then show ?thesis using Suc[of "v - 10"] by (simp add: needed_step)
  next
    case False
    then show ?thesis by (simp add: softenings_needed_def)
  qed
qed

lemma rank_points:
  assumes "r \<in> set ranks"
  shows "(r \<in> set [''J'', ''Q'', ''K''] \<longrightarrow> card_points r = 10)
       \<and> (r = ''A'' \<longrightarrow> card_points r = 11)
       \<and> (r \<notin> set [''J'', ''Q'', ''K''] \<and> r \<noteq> ''A'' \<longrightarrow> py_int r = Some (card_points r))"
  using assms by (auto simp: ranks_def card_points_def is_digit_def)

lemma hand_loop_sums:
  "\<forall>c\<in>set cards. fst c \<in> set ranks \<Longrightarrow>
   hand_loop cards v a =
     Some (v + sum_list (map (\<lambda>c. card_points (fst c)) cards),
           a + length (filter (\<lambda>c. fst c = ''A'') cards))"
proof (induction cards arbitrary: v a)
  case Nil
  show ?case by simp
next
  case (Cons c cs)
  have r: "fst c \<in> set ranks" using Cons.prems by simp
  have rest: "\<forall>c\<in>set cs. fst c \<in> set ranks" using Cons.prems by simp
  note pts = rank_points[OF r]
  consider (face) "fst c \<in> set [''J'', ''Q'', ''K'']"
    | (ace) "fst c = ''A''"
    | (num) "fst c \<notin> set [''J'', ''Q'', ''K'']" "fst c \<noteq> ''A''" by blast
  then show ?case
  proof cases
    case face
    then have "fst c \<noteq> ''A''" by auto
    with face pts show ?thesis using Cons.IH[OF rest, of "v + 10" a] by (simp add: Let_def)
  next
    case ace
    with pts show ?thesis using Cons.IH[OF rest, of "v + 11" "a + 1"] by (simp add: Let_def)
  next
    case num
    with pts show ?thesis
      using Cons.IH[OF rest, of "v + card_points (fst c)" a] by (simp add: Let_def)
  qed
qed

text \<open>
  Claim C7. On every hand of cards of the thirteen ranks, \<^verbatim>\<open>calculate_hand_value\<close>
  returns the value the specification describes: J, Q, K count 10, numeric ranks their
  face value, each ace 11, and 10 is taken off per softened ace while the total is above
  21 and an ace is left. Ace, ace, 9 gives 21; ace, king gives 21; 10, 10, 5 gives 25,
  whatever the suits.
\<close>

theorem calculate_hand_value_spec:
  "((\<forall>c\<in>set cards. fst c \<in> set ranks) \<longrightarrow>
      calculate_hand_value cards = Inr (handValue_spec cards))
   \<and> calculate_hand_value [(''A'', s1), (''A'', s2), (''9'', s3)] = Inr 21
   \<and> calculate_hand_value [(''A'', s1), (''K'', s2)] = Inr 21
   \<and> calculate_hand_value [(''10'', s1), (''10'', s2), (''5'', s3)] = Inr 25"
proof -
  have "(\<forall>c\<in>set cards. fst c \<in> set ranks) \<longrightarrow>
          calculate_hand_value cards = Inr (handValue_spec cards)"
    by (simp add: calculate_hand_value_def handValue_spec_def hand_loop_sums soften_closed
        Let_def)
  moreover have "calculate_hand_value [(''A'', s1), (''A'', s2), (''9'', s3)] = Inr 21"
    by (simp add: calculate_hand_value_def is_digit_def)
  moreover have "calculate_hand_value [(''A'', s1), (''K'', s2)] = Inr 21"
    by (simp add: calculate_hand_value_def is_digit_def)
  moreover have "calculate_hand_value [(''10'', s1), (''10'', s2), (''5'', s3)] = Inr 25"
    by (simp add: calculate_hand_value_def is_digit_def)
  ultimately show ?thesis by blast
qed

theorem calculate_hand_value_spec_witness:
  "set (map fst [(''A'', Spades), (''7'', Hearts), (''K'', Clubs)]) \<subseteq> set ranks
   \<and> calculate_hand_value [(''A'', Spades), (''7'', Hearts), (''K'', Clubs)] = Inr 18"
proof -
  have h: "\<forall>c\<in>set [(''A'', Spades), (''7'', Hearts), (''K'', Clubs)]. fst c \<in> set ranks"
    by (simp add: ranks_def)
  have v: "handValue_spec [(''A'', Spades), (''7'', Hearts), (''K'', Clubs)] = 18"
    by (simp add: handValue_spec_def card_points_def softenings_needed_def)
  show ?thesis
    using calculate_hand_value_spec
            [of "[(''A'', Spades), (''7'', Hearts), (''K'', Clubs)]" Spades Spades Spades] h v
    by simp
qed

section \<open>The deck\<close>

lemma mset_shuffle_from: "i < length xs \<Longrightarrow> mset (shuffle_from rnd i xs) = mset xs"
proof (induction i arbitrary: xs)
  case 0 then show ?case by simp
next
  case (Suc i)
  have "rnd (Suc i) mod (Suc i + 1) < Suc i + 1" by simp
  then have j: "rnd (Suc i) mod (Suc i + 1) < length xs" using Suc.prems by linarith
  show ?case using Suc j by (simp add: Let_def mset_swap)
qed

lemma mset_shuffle: "mset (shuffle rnd xs) = mset xs"
proof (cases xs)
  case Nil then show ?thesis by (simp add: shuffle_def)
next
  case (Cons y ys) then show ?thesis by (simp add: shuffle_def mset_shuffle_from)
qed

lemma ordered_deck_length: "length ordered_deck = 52"
  by (simp add: ordered_deck_def ranks_def suits_def)

lemma ordered_deck_distinct: "distinct ordered_deck"
  by (simp add: ordered_deck_def ranks_def suits_def)

lemma ordered_deck_set: "set ordered_deck = set ranks \<times> set suits"
  by (auto simp: ordered_deck_def)

lemma mset_create_deck: "mset (create_deck rnd) = mset ordered_deck"
  by (simp add: create_deck_def mset_shuffle)

lemma length_create_deck: "length (create_deck rnd) = 52"
  using mset_eq_length[OF mset_create_deck] ordered_deck_length by simp

text \<open>
  Claim C8. Whatever the random source draws, \<^verbatim>\<open>create_deck\<close> returns 52 cards,
  without repetition, and they are exactly the pairs of one of the 13 ranks and one of the
  4 suits: every pair occurs exactly once.
\<close>

theorem create_deck_full:
  "length (create_deck rnd) = 52 \<and> distinct (create_deck rnd)
   \<and> set (create_deck rnd) = set ranks \<times> set suits
   \<and> length ranks = 13 \<and> distinct ranks \<and> length suits = 4 \<and> distinct suits"
proof -
  have m: "mset (create_deck rnd) = mset ordered_deck" by (rule mset_create_deck)
  have "distinct (create_deck rnd)"
    using mset_eq_imp_distinct_iff[OF m] ordered_deck_distinct by simp
  moreover have "set (create_deck rnd) = set ranks \<times> set suits"
    using mset_eq_setD[OF m] ordered_deck_set by simp
  moreover have "length ranks = 13 \<and> distinct ranks" by (simp add: ranks_def)
  moreover have "length suits = 4 \<and> distinct suits" by (simp add: suits_def)
  ultimately show ?thesis using length_create_deck by blast
qed

section \<open>Balance updates\<close>



section \<open>Creating a room\<close>

text \<open>
  Claim C9, as the claim states it, fails: with twenty rooms in play and none waiting,
  all with different codes, \<^verbatim>\<open>create_room_start\<close> goes on to ask for the number of
  players.
\<close>

theorem create_room_ignores_playing_rooms:
  "length (filter (\<lambda>g. status g = Waiting \<or> status g = Playing) (multiplayer_games busy_db)) = 20
   \<and> distinct (map game_id (multiplayer_games busy_db))
   \<and> create_room_start busy_db = Done"
  by code_simp

text \<open>
  Claim C9, amended. A create-room request is rejected with the room-limit alert exactly
  when the number of rooms whose status is waiting is at least \<^verbatim>\<open>MAX_ROOMS\<close> = 20;
  otherwise creation proceeds. Rooms in play are not counted.
\<close>

theorem create_room_start_cap:
  "(create_room_start d = Alert RoomLimitReached) =
     (20 \<le> length (filter (\<lambda>g. status g = Waiting) (multiplayer_games d)))
   \<and> (create_room_start d = Done) =
     (length (filter (\<lambda>g. status g = Waiting) (multiplayer_games d)) < 20)
   \<and> MAX_ROOMS = 20"
  by (auto simp: create_room_start_def MAX_ROOMS_def Let_def)

section \<open>Joining and leaving\<close>




text \<open>
  Claim C2, evaluated on the program: user 2 has 50, joins the waiting room of stake 10
  (balance still 50) and leaves it again before the start. The leave credits the stake,
  which the join never took: the balance ends at 60.
\<close>

theorem join_then_leave_adds_stake:
  "get_user_balance (users lobby_db) 2 = 50
   \<and> fst (join_room_callback lobby_db ''AB12CD'' 2 105) = Done
   \<and> get_user_balance (users joined_db) 2 = 50
   \<and> fst (leave_room_callback joined_db ''AB12CD'' 2) = Done
   \<and> get_user_balance (users (snd (leave_room_callback joined_db ''AB12CD'' 2))) 2 = 60"
  by code_simp

section \<open>Play\<close>

text \<open>
  Claim C3, evaluated on the program: in the room of three, users 1 and 2 have stood and
  the turn is user 3's. User 2 (balance 50, stake 10) leaves the running game, which debits
  the stake once (balance 40) and keeps the seat. User 2 does nothing more. When user 3
  stands, the dealer settles every seat of the room, user 2's among them: with the forced
  dealer win the stake is debited a second time and the balance ends at 30.
\<close>

theorem leave_during_play_settled_again:
  "get_user_balance (users trio_stood_db) 2 = 50
   \<and> fsm_data trio_stood_db 3 = Some (''XY34ZW'', 2)
   \<and> fst (leave_room_callback trio_stood_db ''XY34ZW'' 2) = Done
   \<and> get_user_balance (users trio_left_db) 2 = 40
   \<and> fst (room_action_callback trio_left_db 3 Stand 1) = Done
   \<and> get_user_balance (users (snd (room_action_callback trio_left_db 3 Stand 1))) 2 = 30"
  by code_simp

text \<open>
  Claim C5, evaluated on the program: after user 1 has stood, the turn is user 2's (the
  saved turn index of user 2 is 1). A second action of user 1, a hit, is not rejected: it
  is checked against user 1's own saved index 0, draws a card and shortens the deck.
\<close>

theorem stale_hit_is_applied:
  "fsm_data after_stand_db 2 = Some (''AB12CD'', 1)
   \<and> fsm_data after_stand_db 1 = Some (''AB12CD'', 0)
   \<and> fst (room_action_callback after_stand_db 1 Hit 1) = Done
   \<and> map (length \<circ> deck) (multiplayer_games after_stand_db) = [48]
   \<and> map (length \<circ> deck)
       (multiplayer_games (snd (room_action_callback after_stand_db 1 Hit 1))) = [47]
   \<and> map (length \<circ> pl_cards) (seats_in_order after_stand_db ''AB12CD'') = [2, 2]
   \<and> map (length \<circ> pl_cards)
       (seats_in_order (snd (room_action_callback after_stand_db 1 Hit 1)) ''AB12CD'') = [3, 2]"
  by code_simp

section \<open>Settlement\<close>







section \<open>Starting a game\<close>
















end
